theory Spec2Isabelle
  imports Complex_Main "HOL-Library.Monad_Syntax"
begin

section \<open>Kokkos views over an explicit memory\<close>

text \<open>
  A \<^verbatim>\<open>Kokkos::View<double*>\<close> is a reference-counted handle: copying a view (as the
  kernels do when they take their arguments by value and capture them in the lambda)
  copies the handle, never the data, so two views may name the same allocation.
  The memory maps an allocation to its contents; a view is either the default-constructed
  view (no allocation, extent 0) or the view of a whole allocation.

  The scalar type \<open>'a\<close> stands for \<^verbatim>\<open>double\<close>. The kernels are written against the
  operators only (\<open>1\<close>, \<open>-\<close>, \<open>+\<close>, \<open>*\<close>, \<open>/\<close>, \<open><\<close>), so that a property proved for every
  \<open>'a\<close> uses no law of arithmetic. Properties that need such laws are proved for
  linearly ordered fields such as \<^typ>\<open>real\<close>, that is for exact arithmetic (no rounding,
  overflow, infinity or NaN), or for the type \<open>double\<close> defined below, which adds the
  range of binary64 to the real numbers: overflow, the infinities and NaN.
\<close>

datatype view = View_default | View nat

type_synonym 'a memory = "nat \<Rightarrow> 'a list"

fun data :: "'a memory \<Rightarrow> view \<Rightarrow> 'a list" where
  "data s View_default = []"
| "data s (View a) = s a"

definition extent :: "'a memory \<Rightarrow> view \<Rightarrow> nat" where
  "extent s v = length (data s v)"

text \<open>
  \<^verbatim>\<open>v(i)\<close> read and written. An access outside \<open>[0, extent)\<close> has no defined result
  in C++ (or aborts, when Kokkos is built with bounds checking): it is \<open>None\<close> here.
  Indices and extents are natural numbers; the kernels declare their index \<^verbatim>\<open>const int\<close>,
  so the model speaks for extents that an \<^verbatim>\<open>int\<close> can index.
\<close>

definition view_get :: "'a memory \<Rightarrow> view \<Rightarrow> nat \<Rightarrow> 'a option" where
  "view_get s v i = (if i < extent s v then Some (data s v ! i) else None)"

fun view_set :: "view \<Rightarrow> nat \<Rightarrow> 'a \<Rightarrow> 'a memory \<Rightarrow> 'a memory option" where
  "view_set View_default i x s = None"
| "view_set (View a) i x s =
     (if i < length (s a) then Some (s(a := (s a)[i := x])) else None)"

text \<open>\<^verbatim>\<open>Kokkos::max(a, b)\<close> is \<^verbatim>\<open>(a < b) ? b : a\<close>.\<close>

definition Kokkos_max :: "'a::ord \<Rightarrow> 'a \<Rightarrow> 'a" where
  "Kokkos_max a b = (if a < b then b else a)"

text \<open>
  \<^verbatim>\<open>Kokkos::parallel_for(label, N, body)\<close> runs \<open>body i\<close> for every \<open>i\<close> in \<open>[0, N)\<close> and
  returns when all of them are done. \<open>for_each\<close> runs the body over a schedule (a list
  of indices); \<open>parallel_for\<close> takes the schedule \<open>0, 1, \<dots>, N - 1\<close>. Lemma
  \<open>PressureSoSImpl_schedule\<close> below shows that, for the kernels of this program on
  views that do not alias, every other schedule of the same indices gives the same memory.
\<close>

primrec for_each :: "nat list \<Rightarrow> (nat \<Rightarrow> 's \<Rightarrow> 's option) \<Rightarrow> 's \<Rightarrow> 's option" where
  "for_each [] body s = Some s"
| "for_each (i # is) body s = (case body i s of None \<Rightarrow> None | Some s' \<Rightarrow> for_each is body s')"

definition parallel_for :: "nat \<Rightarrow> (nat \<Rightarrow> 's \<Rightarrow> 's option) \<Rightarrow> 's \<Rightarrow> 's option" where
  "parallel_for N body s = for_each [0..<N] body s"

section \<open>The equations of state\<close>

text \<open>
  \<^verbatim>\<open>class EOSLinearGas\<close> with its members \<^verbatim>\<open>m_id\<close>, \<^verbatim>\<open>m_gamma\<close>, \<^verbatim>\<open>m_pcutoff\<close>;
  the constructor takes them in this order.
\<close>

datatype 'a EOSLinearGas = EOSLinearGas (lin_id: int) (lin_gamma: 'a) (lin_pcutoff: 'a)

text \<open>
  The body of the lambda of \<^verbatim>\<open>EOSLinearGas::PressureSoSImpl\<close>:
  \<^verbatim>\<open>
  p(i)   = Kokkos::max((m_gamma - 1.0) * rho(i) * eint(i), m_pcutoff);
  sos(i) = m_gamma * p(i) / rho(i);
  \<close>
  The second statement reads \<^verbatim>\<open>p(i)\<close> and \<^verbatim>\<open>rho(i)\<close> from memory again, after the
  first has written.
\<close>

definition LinearGas_body ::
  "('a::{one,minus,times,inverse,ord}) EOSLinearGas \<Rightarrow> view \<Rightarrow> view \<Rightarrow> view \<Rightarrow> view
     \<Rightarrow> nat \<Rightarrow> 'a memory \<Rightarrow> 'a memory option" where
  "LinearGas_body eos rho eint p sos i s =
     do {
       r \<leftarrow> view_get s rho i;
       e \<leftarrow> view_get s eint i;
       s1 \<leftarrow> view_set p i (Kokkos_max ((lin_gamma eos - 1) * r * e) (lin_pcutoff eos)) s;
       pv \<leftarrow> view_get s1 p i;
       r1 \<leftarrow> view_get s1 rho i;
       view_set sos i (lin_gamma eos * pv / r1) s1
     }"

definition LinearGas_PressureSoSImpl ::
  "('a::{one,minus,times,inverse,ord}) EOSLinearGas \<Rightarrow> view \<Rightarrow> view \<Rightarrow> view \<Rightarrow> view
     \<Rightarrow> 'a memory \<Rightarrow> 'a memory option" where
  "LinearGas_PressureSoSImpl eos rho eint p sos s =
     (let N = extent s rho in parallel_for N (LinearGas_body eos rho eint p sos) s)"

text \<open>
  \<^verbatim>\<open>class EOSStiffenedGas\<close> with \<^verbatim>\<open>m_id\<close>, \<^verbatim>\<open>m_gamma\<close>, \<^verbatim>\<open>m_pcutoff\<close>, \<^verbatim>\<open>m_pinf\<close>.
  The lambda of its \<^verbatim>\<open>PressureSoSImpl\<close>:
  \<^verbatim>\<open>
  p(i)   = Kokkos::max((m_gamma - 1.0) * rho(i) * eint(i) - m_gamma * m_pinf, m_pcutoff);
  sos(i) = m_gamma * (p(i) + m_pinf) / rho(i);
  \<close>
\<close>

datatype 'a EOSStiffenedGas =
  EOSStiffenedGas (stf_id: int) (stf_gamma: 'a) (stf_pcutoff: 'a) (stf_pinf: 'a)

definition StiffenedGas_body ::
  "('a::{one,minus,plus,times,inverse,ord}) EOSStiffenedGas \<Rightarrow> view \<Rightarrow> view \<Rightarrow> view \<Rightarrow> view
     \<Rightarrow> nat \<Rightarrow> 'a memory \<Rightarrow> 'a memory option" where
  "StiffenedGas_body eos rho eint p sos i s =
     do {
       r \<leftarrow> view_get s rho i;
       e \<leftarrow> view_get s eint i;
       s1 \<leftarrow> view_set p i
               (Kokkos_max ((stf_gamma eos - 1) * r * e - stf_gamma eos * stf_pinf eos)
                  (stf_pcutoff eos)) s;
       pv \<leftarrow> view_get s1 p i;
       r1 \<leftarrow> view_get s1 rho i;
       view_set sos i (stf_gamma eos * (pv + stf_pinf eos) / r1) s1
     }"

definition StiffenedGas_PressureSoSImpl ::
  "('a::{one,minus,plus,times,inverse,ord}) EOSStiffenedGas \<Rightarrow> view \<Rightarrow> view \<Rightarrow> view \<Rightarrow> view
     \<Rightarrow> 'a memory \<Rightarrow> 'a memory option" where
  "StiffenedGas_PressureSoSImpl eos rho eint p sos s =
     (let N = extent s rho in parallel_for N (StiffenedGas_body eos rho eint p sos) s)"

text \<open>
  \<^verbatim>\<open>std::variant<EOSLinearGas, EOSStiffenedGas>\<close> and the call
  \<^verbatim>\<open>std::visit([&](const auto& obj) { obj.PressureSoSImpl(rho, eint, p, sos); }, eos)\<close>.
\<close>

datatype 'a EOSVariant = LinearGas "'a EOSLinearGas" | StiffenedGas "'a EOSStiffenedGas"

fun PressureSoSImpl ::
  "('a::{one,minus,plus,times,inverse,ord}) EOSVariant \<Rightarrow> view \<Rightarrow> view \<Rightarrow> view \<Rightarrow> view
     \<Rightarrow> 'a memory \<Rightarrow> 'a memory option" where
  "PressureSoSImpl (LinearGas obj) rho eint p sos s = LinearGas_PressureSoSImpl obj rho eint p sos s"
| "PressureSoSImpl (StiffenedGas obj) rho eint p sos s =
     StiffenedGas_PressureSoSImpl obj rho eint p sos s"

text \<open>
  \<^verbatim>\<open>EOSCRTP<Derived>::PressureSoS()\<close> calls the derived class's \<^verbatim>\<open>PressureSoSImpl\<close>
  on four default-constructed views.
\<close>

definition PressureSoS ::
  "('obj \<Rightarrow> view \<Rightarrow> view \<Rightarrow> view \<Rightarrow> view \<Rightarrow> 'a memory \<Rightarrow> 'a memory option)
     \<Rightarrow> 'obj \<Rightarrow> 'a memory \<Rightarrow> 'a memory option" where
  "PressureSoS impl obj s = impl obj View_default View_default View_default View_default s"

section \<open>The dispatch loop of \<^verbatim>\<open>main\<close>\<close>

text \<open>
  \<^verbatim>\<open>Kokkos::deep_copy(dst, src)\<close> copies the contents of \<open>src\<close> into \<open>dst\<close>; it raises
  (and \<^verbatim>\<open>main\<close>, which catches nothing there, aborts) when the extents differ. A copy
  of a view onto itself changes nothing.
\<close>

definition set_data :: "view \<Rightarrow> 'a list \<Rightarrow> 'a memory \<Rightarrow> 'a memory" where
  "set_data v xs s = (case v of View_default \<Rightarrow> s | View a \<Rightarrow> s(a := xs))"

definition deep_copy :: "view \<Rightarrow> view \<Rightarrow> 'a memory \<Rightarrow> 'a memory option" where
  "deep_copy dst src s =
     (if extent s dst = extent s src then Some (set_data dst (data s src) s) else None)"

text \<open>
  \<^verbatim>\<open>Kokkos::create_mirror_view(v)\<close> is \<open>v\<close> itself when the memory space of \<open>v\<close> is
  accessible from the host (a CPU build), and a fresh host array of the extent of \<open>v\<close>
  otherwise (an accelerator build). Which one holds is fixed when the program is built:
  it is the parameter \<open>host\<close> below. A fresh host array lives and dies inside the lambda,
  so it is a local value: \<open>mirror_deep_copy s v src\<close> is the mirror of \<open>v\<close> after
  \<^verbatim>\<open>deep_copy(mirror, src)\<close>.
\<close>

definition mirror_deep_copy :: "'a memory \<Rightarrow> view \<Rightarrow> view \<Rightarrow> 'a list option" where
  "mirror_deep_copy s v src = (if extent s v = extent s src then Some (data s src) else None)"

definition host_get :: "'a list \<Rightarrow> nat \<Rightarrow> 'a option" where
  "host_get xs i = (if i < length xs then Some (xs ! i) else None)"

text \<open>
  The lambda that \<^verbatim>\<open>main\<close> hands to \<^verbatim>\<open>std::visit\<close>:
  \<^verbatim>\<open>
  obj.PressureSoSImpl(rho, eint, p, sos);
  auto host_p   = Kokkos::create_mirror_view(p);
  auto host_sos = Kokkos::create_mirror_view(p);
  Kokkos::deep_copy(host_p, p);
  Kokkos::deep_copy(host_sos, sos);
  std::cout << "p: " << host_p(0) << std::endl;
  std::cout << "sos: " << host_sos(0) << std::endl;
  \<close>
  Both mirrors are mirrors of \<open>p\<close>. What is printed is not part of the model; the two
  reads of index 0 are, since a read outside the extent has no defined result.
\<close>

definition visit_lambda ::
  "bool \<Rightarrow> ('a::{one,minus,plus,times,inverse,ord}) EOSVariant \<Rightarrow> view \<Rightarrow> view \<Rightarrow> view \<Rightarrow> view
     \<Rightarrow> 'a memory \<Rightarrow> 'a memory option" where
  "visit_lambda host obj rho eint p sos s =
     do {
       s1 \<leftarrow> PressureSoSImpl obj rho eint p sos s;
       if host then
         do {
           s2 \<leftarrow> deep_copy p p s1;
           s3 \<leftarrow> deep_copy p sos s2;
           _ \<leftarrow> view_get s3 p 0;
           _ \<leftarrow> view_get s3 p 0;
           Some s3
         }
       else
         do {
           host_p \<leftarrow> mirror_deep_copy s1 p p;
           host_sos \<leftarrow> mirror_deep_copy s1 p sos;
           _ \<leftarrow> host_get host_p 0;
           _ \<leftarrow> host_get host_sos 0;
           Some s1
         }
     }"

text \<open>\<^verbatim>\<open>for (const auto& eos : eos_vector) std::visit(lambda, eos);\<close>\<close>

primrec dispatch_loop ::
  "bool \<Rightarrow> ('a::{one,minus,plus,times,inverse,ord}) EOSVariant list \<Rightarrow> view \<Rightarrow> view \<Rightarrow> view \<Rightarrow> view
     \<Rightarrow> 'a memory \<Rightarrow> 'a memory option" where
  "dispatch_loop host [] rho eint p sos s = Some s"
| "dispatch_loop host (eos # eos_vector) rho eint p sos s =
     (case visit_lambda host eos rho eint p sos s of
        None \<Rightarrow> None
      | Some s' \<Rightarrow> dispatch_loop host eos_vector rho eint p sos s')"

text \<open>
  The models and the arrays that \<^verbatim>\<open>main\<close> builds: four models with
  \<open>gamma = 1.4\<close> and \<open>pcutoff = 1e-6\<close>, four views of extent 10, \<open>rho\<close> and \<open>eint\<close>
  filled with 1.0 (a new view is filled with zeros).
\<close>

definition main_eos_vector :: "real EOSVariant list" where
  "main_eos_vector =
     [LinearGas (EOSLinearGas 0 (14 / 10) (1 / 1000000)),
      StiffenedGas (EOSStiffenedGas 1 (14 / 10) (1 / 1000000) 0),
      LinearGas (EOSLinearGas 2 (14 / 10) (1 / 1000000)),
      LinearGas (EOSLinearGas 3 (14 / 10) (1 / 1000000))]"

definition main_memory :: "real memory" where
  "main_memory =
     (\<lambda>a. []) (0 := replicate 10 1, 1 := replicate 10 1, 2 := replicate 10 0, 3 := replicate 10 0)"

text \<open>
  The arrays of the test \<^verbatim>\<open>EOSStiffenedGasTest.PressureSoSImpl\<close>: extent 1,
  \<open>rho = 1.0\<close>, \<open>eint = 2.0\<close>.
\<close>

definition test_memory :: "real memory" where
  "test_memory = (\<lambda>a. []) (0 := [1], 1 := [2], 2 := [0], 3 := [0])"

section \<open>The common shape of the two kernels\<close>

text \<open>
  Both kernels have the same shape: at index \<open>i\<close> they store \<open>pf (rho i) (eint i)\<close> in
  \<open>p(i)\<close> and then \<open>cf (p i) (rho i)\<close> in \<open>sos(i)\<close>.
\<close>

definition kernel ::
  "('a \<Rightarrow> 'a \<Rightarrow> 'a) \<Rightarrow> ('a \<Rightarrow> 'a \<Rightarrow> 'a) \<Rightarrow> view \<Rightarrow> view \<Rightarrow> view \<Rightarrow> view
     \<Rightarrow> nat \<Rightarrow> 'a memory \<Rightarrow> 'a memory option" where
  "kernel pf cf rho eint p sos i s =
     do {
       r \<leftarrow> view_get s rho i;
       e \<leftarrow> view_get s eint i;
       s1 \<leftarrow> view_set p i (pf r e) s;
       pv \<leftarrow> view_get s1 p i;
       r1 \<leftarrow> view_get s1 rho i;
       view_set sos i (cf pv r1) s1
     }"

definition lin_p :: "('a::{one,minus,times,ord}) EOSLinearGas \<Rightarrow> 'a \<Rightarrow> 'a \<Rightarrow> 'a" where
  "lin_p eos r e = Kokkos_max ((lin_gamma eos - 1) * r * e) (lin_pcutoff eos)"

definition lin_sos :: "('a::{times,inverse}) EOSLinearGas \<Rightarrow> 'a \<Rightarrow> 'a \<Rightarrow> 'a" where
  "lin_sos eos pv r = lin_gamma eos * pv / r"

definition stf_p :: "('a::{one,minus,times,ord}) EOSStiffenedGas \<Rightarrow> 'a \<Rightarrow> 'a \<Rightarrow> 'a" where
  "stf_p eos r e =
     Kokkos_max ((stf_gamma eos - 1) * r * e - stf_gamma eos * stf_pinf eos) (stf_pcutoff eos)"

definition stf_sos :: "('a::{plus,times,inverse}) EOSStiffenedGas \<Rightarrow> 'a \<Rightarrow> 'a \<Rightarrow> 'a" where
  "stf_sos eos pv r = stf_gamma eos * (pv + stf_pinf eos) / r"

text \<open>
  \<open>overwrite f I xs\<close> is \<open>xs\<close> with \<open>f j\<close> at every index \<open>j\<close> of \<open>I\<close>: what a run of
  a kernel over the indices \<open>I\<close> makes of an output array.
\<close>

definition overwrite :: "(nat \<Rightarrow> 'a) \<Rightarrow> nat set \<Rightarrow> 'a list \<Rightarrow> 'a list" where
  "overwrite f I xs = map (\<lambda>j. if j \<in> I then f j else xs ! j) [0..<length xs]"

text \<open>
  The value a model stores in \<open>p(j)\<close> and in \<open>sos(j)\<close>, read off the memory before
  the run, and the condition under which no index of the run leaves a view.
\<close>

fun variant_p :: "('a::{one,minus,times,ord}) EOSVariant \<Rightarrow> 'a \<Rightarrow> 'a \<Rightarrow> 'a" where
  "variant_p (LinearGas obj) = lin_p obj"
| "variant_p (StiffenedGas obj) = stf_p obj"

fun variant_sos :: "('a::{plus,times,inverse}) EOSVariant \<Rightarrow> 'a \<Rightarrow> 'a \<Rightarrow> 'a" where
  "variant_sos (LinearGas obj) = lin_sos obj"
| "variant_sos (StiffenedGas obj) = stf_sos obj"

definition new_p :: "('a::{one,minus,times,ord}) EOSVariant \<Rightarrow> 'a memory \<Rightarrow> view \<Rightarrow> view \<Rightarrow> nat \<Rightarrow> 'a" where
  "new_p obj s rho eint j = variant_p obj (data s rho ! j) (data s eint ! j)"

definition new_sos ::
  "('a::{one,minus,plus,times,inverse,ord}) EOSVariant \<Rightarrow> 'a memory \<Rightarrow> view \<Rightarrow> view \<Rightarrow> nat \<Rightarrow> 'a" where
  "new_sos obj s rho eint j = variant_sos obj (new_p obj s rho eint j) (data s rho ! j)"

definition in_bounds :: "'a memory \<Rightarrow> view \<Rightarrow> view \<Rightarrow> view \<Rightarrow> view \<Rightarrow> bool" where
  "in_bounds s rho eint p sos \<longleftrightarrow>
     extent s rho \<le> extent s eint \<and> extent s rho \<le> extent s p \<and> extent s rho \<le> extent s sos"


text \<open>
  When the lambda of \<^verbatim>\<open>main\<close> has a result, and the memory it leaves: on a host
  build \<open>p\<close> ends as a copy of \<open>sos\<close>, because \<open>host_sos\<close> is the view \<open>p\<close> itself.
\<close>

definition lambda_ok :: "'a memory \<Rightarrow> view \<Rightarrow> view \<Rightarrow> view \<Rightarrow> view \<Rightarrow> bool" where
  "lambda_ok s rho eint p sos \<longleftrightarrow>
     in_bounds s rho eint p sos \<and> extent s p = extent s sos \<and> 0 < extent s p"

definition lambda_result ::
  "bool \<Rightarrow> ('a::{one,minus,plus,times,inverse,ord}) EOSVariant \<Rightarrow> view \<Rightarrow> view \<Rightarrow> view \<Rightarrow> view
     \<Rightarrow> 'a memory \<Rightarrow> 'a memory" where
  "lambda_result host obj rho eint p sos s =
     (let ps = overwrite (new_p obj s rho eint) {..<extent s rho} (data s p);
          cs = overwrite (new_sos obj s rho eint) {..<extent s rho} (data s sos)
      in set_data sos cs (set_data p (if host then cs else ps) s))"

text \<open>
  Two more memories of extent 1 for worked examples: one with a negative internal energy
  (\<open>rho = 1\<close>, \<open>eint = -1\<close>), one with a larger internal energy than the test's and
  other values in the output arrays (\<open>rho = 1\<close>, \<open>eint = 3\<close>).
\<close>

definition cold_memory :: "real memory" where
  "cold_memory = (\<lambda>a. []) (0 := [1], 1 := [- 1], 2 := [0], 3 := [0])"

definition warm_memory :: "real memory" where
  "warm_memory = (\<lambda>a. []) (0 := [1], 1 := [3], 2 := [7], 3 := [7])"

text \<open>
  A second sequence of models, for a worked example in which the models differ.
\<close>

definition two_eos_vector :: "real EOSVariant list" where
  "two_eos_vector =
     [LinearGas (EOSLinearGas 0 (14 / 10) (1 / 1000000)),
      StiffenedGas (EOSStiffenedGas 1 3 (1 / 1000000) (1 / 10))]"

section \<open>Doubles and their range\<close>

text \<open>
  A \<^verbatim>\<open>double\<close> as far as its range goes: NaN, the two infinities, and the finite
  values. The operations are those of IEEE 754 binary64 under round-to-nearest, with one
  simplification: a finite result is kept as the real number it is, not rounded to 53
  bits. So what this type adds to exact arithmetic is
  \<^item> overflow: a result of magnitude at least \<open>2^1024 - 2^970\<close> (where round-to-nearest
    leaves the finite doubles) is an infinity;
  \<^item> the arithmetic of the infinities: \<open>inf * 0\<close> and \<open>inf - inf\<close> are NaN;
  \<^item> NaN: an operation on a NaN gives NaN, and every comparison with a NaN is false.
  Underflow and the sign of zero are not modelled: a zero is the positive zero.
\<close>

datatype double = NaN | NInf | Fin real | PInf

definition overflow :: "real \<Rightarrow> double" where
  "overflow x =
     (if 2 ^ 1024 - 2 ^ 970 \<le> x then PInf
      else if x \<le> - (2 ^ 1024 - 2 ^ 970) then NInf
      else Fin x)"

definition inf_times :: "bool \<Rightarrow> real \<Rightarrow> double" where
  "inf_times positive x = (if x = 0 then NaN else if (0 < x) = positive then PInf else NInf)"

fun double_neg :: "double \<Rightarrow> double" where
  "double_neg NaN = NaN"
| "double_neg NInf = PInf"
| "double_neg (Fin x) = Fin (- x)"
| "double_neg PInf = NInf"

fun double_add :: "double \<Rightarrow> double \<Rightarrow> double" where
  "double_add NaN y = NaN"
| "double_add x NaN = NaN"
| "double_add (Fin x) (Fin y) = overflow (x + y)"
| "double_add PInf NInf = NaN"
| "double_add NInf PInf = NaN"
| "double_add PInf y = PInf"
| "double_add x PInf = PInf"
| "double_add NInf y = NInf"
| "double_add x NInf = NInf"

fun double_mul :: "double \<Rightarrow> double \<Rightarrow> double" where
  "double_mul NaN y = NaN"
| "double_mul x NaN = NaN"
| "double_mul (Fin x) (Fin y) = overflow (x * y)"
| "double_mul (Fin x) PInf = inf_times True x"
| "double_mul (Fin x) NInf = inf_times False x"
| "double_mul PInf (Fin y) = inf_times True y"
| "double_mul NInf (Fin y) = inf_times False y"
| "double_mul PInf PInf = PInf"
| "double_mul PInf NInf = NInf"
| "double_mul NInf PInf = NInf"
| "double_mul NInf NInf = PInf"

fun double_div :: "double \<Rightarrow> double \<Rightarrow> double" where
  "double_div NaN y = NaN"
| "double_div x NaN = NaN"
| "double_div (Fin x) (Fin y) = (if y = 0 then inf_times True x else overflow (x / y))"
| "double_div (Fin x) PInf = Fin 0"
| "double_div (Fin x) NInf = Fin 0"
| "double_div PInf (Fin y) = (if y < 0 then NInf else PInf)"
| "double_div NInf (Fin y) = (if y < 0 then PInf else NInf)"
| "double_div PInf PInf = NaN"
| "double_div PInf NInf = NaN"
| "double_div NInf PInf = NaN"
| "double_div NInf NInf = NaN"

fun double_less :: "double \<Rightarrow> double \<Rightarrow> bool" where
  "double_less NaN y = False"
| "double_less x NaN = False"
| "double_less (Fin x) (Fin y) = (x < y)"
| "double_less x NInf = False"
| "double_less PInf y = False"
| "double_less NInf y = True"
| "double_less x PInf = True"

fun double_less_eq :: "double \<Rightarrow> double \<Rightarrow> bool" where
  "double_less_eq NaN y = False"
| "double_less_eq x NaN = False"
| "double_less_eq (Fin x) (Fin y) = (x \<le> y)"
| "double_less_eq NInf y = True"
| "double_less_eq x PInf = True"
| "double_less_eq x NInf = False"
| "double_less_eq PInf y = False"

instantiation double :: "{zero,one,plus,minus,times,inverse,ord}"
begin

definition zero_double_def: "0 = Fin 0"

definition one_double_def: "1 = Fin 1"

definition plus_double_def: "x + y = double_add x y"

definition minus_double_def: "x - y = double_add x (double_neg y)"

definition times_double_def: "x * y = double_mul x y"

definition divide_double_def: "x div y = double_div x y"

definition inverse_double_def: "inverse x = double_div (Fin 1) x"

definition less_double_def: "x < y \<longleftrightarrow> double_less x y"

definition less_eq_double_def: "x \<le> y \<longleftrightarrow> double_less_eq x y"

instance ..

end




section \<open>Views and memory\<close>

lemma data_set_data:
  "data (set_data v xs s) w = (if w = v \<and> v \<noteq> View_default then xs else data s w)"
  by (cases v; cases w) (simp_all add: set_data_def)

lemma data_set_data_other: "w \<noteq> v \<Longrightarrow> data (set_data v xs s) w = data s w"
  by (simp add: data_set_data)

lemma extent_set_data:
  "extent (set_data v xs s) w = (if w = v \<and> v \<noteq> View_default then length xs else extent s w)"
  by (simp add: extent_def data_set_data)

lemma length_data: "length (data s v) = extent s v"
  by (simp add: extent_def)

lemma extent_set_data_same_length:
  "length xs = extent s v \<Longrightarrow> extent (set_data v xs s) w = extent s w"
  by (cases v) (auto simp add: extent_set_data)

lemma set_data_idem: "set_data v xs (set_data v ys s) = set_data v xs s"
  by (cases v) (simp_all add: set_data_def)

lemma set_data_commute:
  "v \<noteq> w \<Longrightarrow> set_data v xs (set_data w ys s) = set_data w ys (set_data v xs s)"
  by (cases v; cases w) (auto simp add: set_data_def)

lemma set_data_absorb:
  "set_data v xs (set_data w ys (set_data v zs s)) = set_data v xs (set_data w ys s)"
  by (cases v; cases w) (auto simp add: set_data_def)

lemma set_data_same: "set_data v (data s v) s = s"
  by (cases v) (simp_all add: set_data_def)

lemma view_set_eq:
  "view_set v i x s =
     (if i < extent s v then Some (set_data v ((data s v)[i := x]) s) else None)"
  by (cases v) (simp_all add: extent_def set_data_def)

lemma extent_pos_not_default: "i < extent s v \<Longrightarrow> v \<noteq> View_default"
  by (cases v) (simp_all add: extent_def)

lemma deep_copy_self: "deep_copy v v s = Some s"
  by (simp add: deep_copy_def set_data_same)

lemma overwrite_length [simp]: "length (overwrite f I xs) = length xs"
  by (simp add: overwrite_def)

lemma overwrite_nth:
  "j < length xs \<Longrightarrow> overwrite f I xs ! j = (if j \<in> I then f j else xs ! j)"
  by (simp add: overwrite_def)

lemma overwrite_empty: "overwrite f {} xs = xs"
  by (rule nth_equalityI) (simp_all add: overwrite_nth)

lemma overwrite_update:
  "i < length xs \<Longrightarrow> overwrite f I (xs[i := f i]) = overwrite f (insert i I) xs"
  by (rule nth_equalityI) (auto simp add: overwrite_nth nth_list_update)

lemma overwrite_overwrite: "overwrite f I (overwrite g I xs) = overwrite f I xs"
  by (rule nth_equalityI) (simp_all add: overwrite_nth)

lemma overwrite_all:
  "length xs \<le> N \<Longrightarrow> overwrite f {..<N} xs = map f [0..<length xs]"
  by (rule nth_equalityI) (simp_all add: overwrite_nth)

lemma overwrite_drop: "drop N (overwrite f {..<N} xs) = drop N xs"
  by (rule nth_equalityI) (simp_all add: overwrite_nth)

lemma overwrite_take:
  "length xs = length ys \<Longrightarrow> take N (overwrite f {..<N} xs) = take N (overwrite f {..<N} ys)"
  by (rule nth_equalityI) (simp_all add: overwrite_nth)

lemma data_set_data_overwrite:
  "data (set_data v (overwrite f I (data s v)) s) v = overwrite f I (data s v)"
  by (cases v) (simp_all add: set_data_def overwrite_def)

section \<open>A run of a kernel in closed form\<close>

text \<open>
  On views of different allocations a step of a kernel at an index inside all four
  extents changes \<open>p\<close> and \<open>sos\<close> at that index; at an index outside one of them it has
  no result. A run over any schedule is then known in closed form, and so is a run of
  \<^verbatim>\<open>PressureSoSImpl\<close>: it has a result exactly when \<open>eint\<close>, \<open>p\<close> and \<open>sos\<close> are at
  least as long as \<open>rho\<close>.
\<close>

lemma LinearGas_body_kernel:
  "LinearGas_body eos rho eint p sos = kernel (lin_p eos) (lin_sos eos) rho eint p sos"
  by (intro ext) (simp add: LinearGas_body_def kernel_def lin_p_def lin_sos_def)

lemma StiffenedGas_body_kernel:
  "StiffenedGas_body eos rho eint p sos = kernel (stf_p eos) (stf_sos eos) rho eint p sos"
  by (intro ext) (simp add: StiffenedGas_body_def kernel_def stf_p_def stf_sos_def)

lemma kernel_step:
  assumes "distinct [rho, eint, p, sos]"
    and "i < extent s rho" "i < extent s eint" "i < extent s p" "i < extent s sos"
  shows "kernel pf cf rho eint p sos i s =
           Some (set_data sos ((data s sos)[i := cf (pf (data s rho ! i) (data s eint ! i)) (data s rho ! i)])
                  (set_data p ((data s p)[i := pf (data s rho ! i) (data s eint ! i)]) s))"
  using assms extent_pos_not_default[of i s]
  by (simp add: kernel_def view_get_def view_set_eq extent_set_data data_set_data length_data)

lemma kernel_out_of_range:
  assumes "extent s rho \<le> i \<or> extent s eint \<le> i \<or> extent s p \<le> i \<or> extent s sos \<le> i"
  shows "kernel pf cf rho eint p sos i s = None"
  using assms
  by (auto simp add: kernel_def view_get_def view_set_eq extent_set_data data_set_data length_data
      split: bind_splits if_splits)

lemma kernel_extent:
  assumes "kernel pf cf rho eint p sos i s = Some s'"
  shows "extent s' v = extent s v"
  using assms
  by (auto simp add: kernel_def view_get_def view_set_eq extent_set_data data_set_data length_data
      split: bind_splits if_splits)

lemma for_each_kernel:
  assumes "distinct [rho, eint, p, sos]"
    and "\<forall>i\<in>set is. i < extent s rho \<and> i < extent s eint \<and> i < extent s p \<and> i < extent s sos"
    and "data s rho = R" and "data s eint = E"
  shows "for_each is (kernel pf cf rho eint p sos) s =
           Some (set_data sos (overwrite (\<lambda>j. cf (pf (R ! j) (E ! j)) (R ! j)) (set is) (data s sos))
                  (set_data p (overwrite (\<lambda>j. pf (R ! j) (E ! j)) (set is) (data s p)) s))"
  using assms(2-)
proof (induction "is" arbitrary: s)
  case Nil
  then show ?case by (simp add: overwrite_empty set_data_same)
next
  case (Cons i "is")
  let ?P = "\<lambda>j. pf (R ! j) (E ! j)"
  let ?C = "\<lambda>j. cf (?P j) (R ! j)"
  let ?s1 = "set_data sos ((data s sos)[i := ?C i]) (set_data p ((data s p)[i := ?P i]) s)"
  from Cons.prems have step: "kernel pf cf rho eint p sos i s = Some ?s1"
    using kernel_step [OF assms(1), of i s pf cf] by simp
  have d: "rho \<noteq> p" "rho \<noteq> sos" "eint \<noteq> p" "eint \<noteq> sos" "p \<noteq> sos"
    using assms(1) by auto
  have nd: "p \<noteq> View_default" "sos \<noteq> View_default"
    using Cons.prems(1) extent_pos_not_default [of i s] by auto
  have ih: "for_each is (kernel pf cf rho eint p sos) ?s1 =
      Some (set_data sos (overwrite ?C (set is) (data ?s1 sos))
             (set_data p (overwrite ?P (set is) (data ?s1 p)) ?s1))"
    using Cons.prems d nd by (intro Cons.IH) (simp_all add: extent_set_data data_set_data length_data)
  have p1: "data ?s1 p = (data s p)[i := ?P i]" and c1: "data ?s1 sos = (data s sos)[i := ?C i]"
    using d nd by (simp_all add: data_set_data)
  have ip: "i < length (data s p)" and ic: "i < length (data s sos)"
    using Cons.prems(1) by (simp_all add: length_data)
  have eq: "set_data sos (overwrite ?C (set is) (data ?s1 sos))
               (set_data p (overwrite ?P (set is) (data ?s1 p)) ?s1) =
             set_data sos (overwrite ?C (set (i # is)) (data s sos))
               (set_data p (overwrite ?P (set (i # is)) (data s p)) s)"
    by (simp add: p1 c1 overwrite_update [OF ip, of ?P "set is"]
        overwrite_update [OF ic, of ?C "set is"] set_data_idem set_data_absorb)
  show ?case
    by (simp only: for_each.simps step option.case ih eq)
qed

lemma for_each_kernel_out_of_range:
  assumes "k \<in> set is"
    and "extent s rho \<le> k \<or> extent s eint \<le> k \<or> extent s p \<le> k \<or> extent s sos \<le> k"
  shows "for_each is (kernel pf cf rho eint p sos) s = None"
  using assms
proof (induction "is" arbitrary: s)
  case Nil
  then show ?case by simp
next
  case (Cons i "is")
  show ?case
  proof (cases "kernel pf cf rho eint p sos i s")
    case None
    then show ?thesis by simp
  next
    case (Some s')
    then have "k \<noteq> i"
      using Cons.prems(2) kernel_out_of_range [of s rho k eint p sos pf cf] by auto
    moreover have "\<And>v. extent s' v = extent s v"
      using Some by (rule kernel_extent)
    ultimately show ?thesis
      using Cons Some by simp
  qed
qed

lemma parallel_for_kernel:
  assumes "distinct [rho, eint, p, sos]"
  shows "parallel_for (extent s rho) (kernel pf cf rho eint p sos) s =
      (if extent s rho \<le> extent s eint \<and> extent s rho \<le> extent s p \<and> extent s rho \<le> extent s sos
       then Some (set_data sos
                    (overwrite (\<lambda>j. cf (pf (data s rho ! j) (data s eint ! j)) (data s rho ! j))
                       {..<extent s rho} (data s sos))
                 (set_data p
                    (overwrite (\<lambda>j. pf (data s rho ! j) (data s eint ! j)) {..<extent s rho} (data s p))
                    s))
       else None)"
proof (cases "extent s rho \<le> extent s eint \<and> extent s rho \<le> extent s p \<and> extent s rho \<le> extent s sos")
  case True
  then show ?thesis
    using for_each_kernel [OF assms, of "[0..<extent s rho]" s "data s rho" "data s eint" pf cf]
    by (simp add: parallel_for_def atLeast0LessThan)
next
  case False
  define k where "k = Min {extent s eint, extent s p, extent s sos}"
  have "k < extent s rho" "extent s eint \<le> k \<or> extent s p \<le> k \<or> extent s sos \<le> k"
    using False unfolding k_def by auto
  then show ?thesis
    using False for_each_kernel_out_of_range [of k "[0..<extent s rho]" s rho eint p sos pf cf]
    by (simp add: parallel_for_def)
qed

lemma PressureSoSImpl_kernel:
  "PressureSoSImpl obj rho eint p sos s =
     parallel_for (extent s rho) (kernel (variant_p obj) (variant_sos obj) rho eint p sos) s"
  by (cases obj)
    (simp_all add: LinearGas_PressureSoSImpl_def StiffenedGas_PressureSoSImpl_def
      LinearGas_body_kernel StiffenedGas_body_kernel)

lemma PressureSoSImpl_eq:
  assumes "distinct [rho, eint, p, sos]"
  shows "PressureSoSImpl obj rho eint p sos s =
      (if in_bounds s rho eint p sos
       then Some (set_data sos (overwrite (new_sos obj s rho eint) {..<extent s rho} (data s sos))
                 (set_data p (overwrite (new_p obj s rho eint) {..<extent s rho} (data s p)) s))
       else None)"
  unfolding PressureSoSImpl_kernel parallel_for_kernel [OF assms] in_bounds_def new_p_def new_sos_def
  by (rule refl)

lemma PressureSoSImpl_schedule:
  assumes "distinct [rho, eint, p, sos]" and "in_bounds s rho eint p sos"
    and "set is = {..<extent s rho}"
  shows "for_each is (kernel (variant_p obj) (variant_sos obj) rho eint p sos) s =
         PressureSoSImpl obj rho eint p sos s"
  using assms(2,3) for_each_kernel [OF assms(1), of "is" s "data s rho" "data s eint"
      "variant_p obj" "variant_sos obj"]
  by (simp add: PressureSoSImpl_eq [OF assms(1)] in_bounds_def new_p_def [abs_def]
      new_sos_def [abs_def])

lemma in_boundsD:
  "in_bounds s rho eint p sos \<Longrightarrow> i < extent s rho \<Longrightarrow>
     i < extent s eint \<and> i < extent s p \<and> i < extent s sos"
  by (auto simp add: in_bounds_def)

lemma body_writes:
  assumes "distinct [rho, eint, p, sos]" and "in_bounds s rho eint p sos" and "i < extent s rho"
  shows "\<exists>x y. kernel pf cf rho eint p sos i s =
           Some (set_data sos ((data s sos)[i := y]) (set_data p ((data s p)[i := x]) s))"
  using kernel_step [OF assms(1), of i s pf cf] in_boundsD [OF assms(2,3)] assms(3)
  by blast

lemma PressureSoSImpl_p_nth:
  assumes "distinct [rho, eint, p, sos]" and "in_bounds s rho eint p sos" and "i < extent s rho"
  shows "\<exists>s'. PressureSoSImpl obj rho eint p sos s = Some s' \<and>
           data s' p ! i = new_p obj s rho eint i \<and>
           data s' sos ! i = new_sos obj s rho eint i \<and> 
           data s' rho = data s rho \<and> data s' eint = data s eint"
proof -
  have nd: "p \<noteq> View_default" "sos \<noteq> View_default"
    using assms(2,3) extent_pos_not_default [of i s] by (auto simp add: in_bounds_def)
  have "i < length (data s p)" "i < length (data s sos)"
    using assms(2,3) by (simp_all add: in_bounds_def length_data)
  then show ?thesis
    using assms nd
    by (simp add: PressureSoSImpl_eq [OF assms(1)] data_set_data overwrite_nth)
qed

lemma Kokkos_max_eq_max: "Kokkos_max a b = max a (b::'a::linorder)"
  by (auto simp add: Kokkos_max_def max_def)

lemma StiffenedGas_body_pinf_0:
  fixes gamma :: "'a::linordered_field"
  shows "StiffenedGas_body (EOSStiffenedGas n gamma pcutoff 0) rho eint p sos =
         LinearGas_body (EOSLinearGas m gamma pcutoff) rho eint p sos"
  by (intro ext) (simp add: StiffenedGas_body_def LinearGas_body_def)

section \<open>The lambda of \<^verbatim>\<open>main\<close> in closed form\<close>

text \<open>
  The lambda has a result exactly when the run of the kernel has one, \<open>p\<close> and \<open>sos\<close>
  have the same extent and that extent is not 0. A second call absorbs the first.
\<close>

lemma visit_lambda_eq:
  assumes "distinct [rho, eint, p, sos]"
  shows "visit_lambda host obj rho eint p sos s =
           (if lambda_ok s rho eint p sos then Some (lambda_result host obj rho eint p sos s)
            else None)"
proof (cases "lambda_ok s rho eint p sos")
  case True
  let ?ps = "overwrite (new_p obj s rho eint) {..<extent s rho} (data s p)"
  let ?cs = "overwrite (new_sos obj s rho eint) {..<extent s rho} (data s sos)"
  let ?s1 = "set_data sos ?cs (set_data p ?ps s)"
  have nd: "p \<noteq> View_default" "sos \<noteq> View_default" "p \<noteq> sos" "sos \<noteq> p"
    using True assms extent_pos_not_default [of 0 s] by (auto simp add: lambda_ok_def)
  have run: "PressureSoSImpl obj rho eint p sos s = Some ?s1"
    using True by (simp add: PressureSoSImpl_eq [OF assms] lambda_ok_def)
  have ext: "extent s sos = extent s p" "0 < extent s p"
    using True by (simp_all add: lambda_ok_def)
  have ne: "?ps \<noteq> []" "?cs \<noteq> []"
    using ext by (simp_all add: length_data flip: length_greater_0_conv)
  show ?thesis
  proof (cases host)
    case True
    have "visit_lambda host obj rho eint p sos s = Some (set_data p ?cs ?s1)"
      using nd ext ne True
      by (simp add: visit_lambda_def run deep_copy_def view_get_def extent_set_data
          data_set_data length_data set_data_same)
    also have "set_data p ?cs ?s1 = lambda_result host obj rho eint p sos s"
      using nd True
      by (simp add: lambda_result_def Let_def set_data_commute [of p sos] set_data_idem)
    finally show ?thesis
      using \<open>lambda_ok s rho eint p sos\<close> by simp
  next
    case False
    have "visit_lambda host obj rho eint p sos s = Some ?s1"
      using nd ext ne False
      by (simp add: visit_lambda_def run mirror_deep_copy_def host_get_def extent_set_data
          data_set_data length_data)
    also have "?s1 = lambda_result host obj rho eint p sos s"
      using False by (simp add: lambda_result_def Let_def)
    finally show ?thesis
      using \<open>lambda_ok s rho eint p sos\<close> by simp
  qed
next
  case False
  show ?thesis
  proof (cases "in_bounds s rho eint p sos")
    case nb: False
    then show ?thesis
      using False by (simp add: visit_lambda_def PressureSoSImpl_eq [OF assms])
  next
    case True
    define s1 where "s1 =
      set_data sos (overwrite (new_sos obj s rho eint) {..<extent s rho} (data s sos))
        (set_data p (overwrite (new_p obj s rho eint) {..<extent s rho} (data s p)) s)"
    have run: "PressureSoSImpl obj rho eint p sos s = Some s1"
      using True by (simp add: PressureSoSImpl_eq [OF assms] s1_def)
    have ext: "\<And>v. extent s1 v = extent s v"
      by (simp add: s1_def extent_set_data_same_length length_data)
    have bad: "extent s p \<noteq> extent s sos \<or> extent s p = 0"
      using False True by (simp add: lambda_ok_def)
    have "visit_lambda host obj rho eint p sos s = None"
    proof (cases "extent s p = extent s sos")
      case ne: False
      then show ?thesis
        by (simp add: visit_lambda_def run deep_copy_self deep_copy_def mirror_deep_copy_def ext)
    next
      case True
      with bad have z: "extent s p = 0" "extent s sos = 0"
        by simp_all
      then have "data s1 p = []" "data s1 sos = []"
        using ext [of p] ext [of sos] by (simp_all add: extent_def)
      then show ?thesis
        by (simp add: visit_lambda_def run deep_copy_self deep_copy_def mirror_deep_copy_def
            view_get_def host_get_def ext z extent_set_data_same_length)
    qed
    then show ?thesis
      using False by simp
  qed
qed

lemma lambda_result_extent:
  assumes "extent s p = extent s sos"
  shows "extent (lambda_result host obj rho eint p sos s) v = extent s v"
  using assms
  by (simp add: lambda_result_def Let_def extent_set_data_same_length length_data)

lemma lambda_ok_extent:
  assumes "\<And>v. extent s' v = extent s v"
  shows "lambda_ok s' rho eint p sos = lambda_ok s rho eint p sos"
  by (simp add: lambda_ok_def in_bounds_def assms)

lemma lambda_result_absorb:
  assumes "distinct [rho, eint, p, sos]" and "lambda_ok s rho eint p sos"
  shows "lambda_result host obj2 rho eint p sos (lambda_result host obj1 rho eint p sos s) =
         lambda_result host obj2 rho eint p sos s"
proof -
  let ?s' = "lambda_result host obj1 rho eint p sos s"
  have nd: "p \<noteq> View_default" "sos \<noteq> View_default"
    using assms(2) extent_pos_not_default [of 0 s] by (auto simp add: lambda_ok_def)
  have d: "rho \<noteq> p" "rho \<noteq> sos" "eint \<noteq> p" "eint \<noteq> sos" "p \<noteq> sos" "sos \<noteq> p"
    using assms(1) by auto
  have inputs: "data ?s' rho = data s rho" "data ?s' eint = data s eint"
    using d by (simp_all add: lambda_result_def Let_def data_set_data)
  have N: "extent ?s' rho = extent s rho"
    using assms(2) by (simp add: lambda_result_extent lambda_ok_def)
  have f: "new_p obj2 ?s' rho eint = new_p obj2 s rho eint"
    "new_sos obj2 ?s' rho eint = new_sos obj2 s rho eint"
    by (simp_all add: new_p_def [abs_def] new_sos_def [abs_def] inputs)
  have outs:
    "data ?s' sos = overwrite (new_sos obj1 s rho eint) {..<extent s rho} (data s sos)"
    "data ?s' p = (if host then overwrite (new_sos obj1 s rho eint) {..<extent s rho} (data s sos)
                   else overwrite (new_p obj1 s rho eint) {..<extent s rho} (data s p))"
    using d nd by (simp_all add: lambda_result_def Let_def data_set_data)
  show ?thesis
    unfolding lambda_result_def [of host obj2] Let_def f N outs
    by (simp add: overwrite_overwrite lambda_result_def Let_def set_data_absorb set_data_idem)
qed

lemma visit_lambda_absorb:
  assumes "distinct [rho, eint, p, sos]"
    and "visit_lambda host obj1 rho eint p sos s = Some s'"
  shows "visit_lambda host obj2 rho eint p sos s' = visit_lambda host obj2 rho eint p sos s"
proof -
  from assms(2) have ok: "lambda_ok s rho eint p sos"
    and s': "s' = lambda_result host obj1 rho eint p sos s"
    by (simp_all add: visit_lambda_eq [OF assms(1)] split: if_splits)
  have "lambda_ok s' rho eint p sos = lambda_ok s rho eint p sos"
    using ok by (intro lambda_ok_extent) (simp add: s' lambda_result_extent lambda_ok_def)
  then show ?thesis
    using ok by (simp add: visit_lambda_eq [OF assms(1)] s' lambda_result_absorb [OF assms(1) ok])
qed

lemma visit_lambda_None:
  assumes "distinct [rho, eint, p, sos]"
    and "visit_lambda host obj1 rho eint p sos s = None"
  shows "visit_lambda host obj2 rho eint p sos s = None"
  using assms(2) by (simp add: visit_lambda_eq [OF assms(1)] split: if_splits)

lemma dispatch_loop_skip:
  assumes "distinct [rho, eint, p, sos]"
  shows "dispatch_loop host (obj1 # obj2 # eos_vector) rho eint p sos s =
         dispatch_loop host (obj2 # eos_vector) rho eint p sos s"
proof (cases "visit_lambda host obj1 rho eint p sos s")
  case None
  then show ?thesis
    using visit_lambda_None [OF assms None, of obj2] by simp
next
  case (Some s')
  then show ?thesis
    using visit_lambda_absorb [OF assms Some, of obj2] by simp
qed

lemma dispatch_loop_last:
  assumes "distinct [rho, eint, p, sos]" and "eos_vector \<noteq> []"
  shows "dispatch_loop host eos_vector rho eint p sos s =
         dispatch_loop host [last eos_vector] rho eint p sos s"
  using assms(2)
proof (induction eos_vector rule: induct_list012)
  case 1
  then show ?case by simp
next
  case (2 x)
  then show ?case by simp
next
  case (3 x y zs)
  have "dispatch_loop host (x # y # zs) rho eint p sos s =
        dispatch_loop host (y # zs) rho eint p sos s"
    by (rule dispatch_loop_skip [OF assms(1)])
  also have "\<dots> = dispatch_loop host [last (y # zs)] rho eint p sos s"
    by (rule "3.IH"(2)) simp
  finally show ?case by simp
qed

text \<open>
  On an accelerator build the lambda leaves what the kernel leaves. On a host build it
  leaves in \<open>p\<close> a copy of \<open>sos\<close>: \<open>host_sos\<close> is created as a mirror of \<open>p\<close>, which on
  the host is \<open>p\<close> itself, and \<^verbatim>\<open>deep_copy(host_sos, sos)\<close> then writes into it.
\<close>

lemma visit_lambda_accelerator:
  assumes "distinct [rho, eint, p, sos]" and "lambda_ok s rho eint p sos"
  shows "visit_lambda False obj rho eint p sos s = PressureSoSImpl obj rho eint p sos s"
  using assms(2)
  by (simp add: visit_lambda_eq [OF assms(1)] PressureSoSImpl_eq [OF assms(1)] lambda_result_def
      lambda_ok_def)

lemma visit_lambda_host:
  assumes "distinct [rho, eint, p, sos]"
    and "visit_lambda True obj rho eint p sos s = Some s'"
  shows "data s' p = data s' sos"
proof -
  from assms(2) have ok: "lambda_ok s rho eint p sos"
    and s': "s' = lambda_result True obj rho eint p sos s"
    by (simp_all add: visit_lambda_eq [OF assms(1)] split: if_splits)
  have nd: "p \<noteq> View_default" "sos \<noteq> View_default"
    using ok extent_pos_not_default [of 0 s] by (auto simp add: lambda_ok_def)
  have "p \<noteq> sos"
    using assms(1) by simp
  then show ?thesis
    using nd by (simp add: s' lambda_result_def Let_def data_set_data)
qed

lemma PressureSoSImpl_lambda_result:
  assumes "distinct [rho, eint, p, sos]" and "lambda_ok s rho eint p sos"
  shows "PressureSoSImpl obj rho eint p sos s = Some (lambda_result False obj rho eint p sos s)"
  using assms(2) by (simp add: PressureSoSImpl_eq [OF assms(1)] lambda_ok_def lambda_result_def)

lemma dispatch_loop_accelerator:
  assumes "distinct [rho, eint, p, sos]" and "eos_vector \<noteq> []"
    and "lambda_ok s rho eint p sos"
  shows "dispatch_loop False eos_vector rho eint p sos s =
         PressureSoSImpl (last eos_vector) rho eint p sos s"
proof -
  have "dispatch_loop False eos_vector rho eint p sos s =
        dispatch_loop False [last eos_vector] rho eint p sos s"
    using assms(1,2) by (rule dispatch_loop_last)
  also have "\<dots> = visit_lambda False (last eos_vector) rho eint p sos s"
    by (simp split: option.splits)
  also have "\<dots> = PressureSoSImpl (last eos_vector) rho eint p sos s"
    using assms(1,3) by (rule visit_lambda_accelerator)
  finally show ?thesis .
qed

lemma dispatch_loop_host:
  assumes "distinct [rho, eint, p, sos]" and "eos_vector \<noteq> []"
    and "dispatch_loop True eos_vector rho eint p sos s = Some s'"
  shows "\<exists>k. PressureSoSImpl (last eos_vector) rho eint p sos s = Some k \<and>
              data s' sos = data k sos \<and> data s' p = data k sos"
proof -
  have "dispatch_loop True eos_vector rho eint p sos s =
        dispatch_loop True [last eos_vector] rho eint p sos s"
    using assms(1,2) by (rule dispatch_loop_last)
  then have v: "visit_lambda True (last eos_vector) rho eint p sos s = Some s'"
    using assms(3) by (simp split: option.splits)
  then have ok: "lambda_ok s rho eint p sos"
    and s': "s' = lambda_result True (last eos_vector) rho eint p sos s"
    by (simp_all add: visit_lambda_eq [OF assms(1)] split: if_splits)
  have k: "PressureSoSImpl (last eos_vector) rho eint p sos s =
      Some (lambda_result False (last eos_vector) rho eint p sos s)"
    using assms(1) ok by (rule PressureSoSImpl_lambda_result)
  have nd: "p \<noteq> View_default" "sos \<noteq> View_default" "p \<noteq> sos"
    using ok assms(1) extent_pos_not_default [of 0 s] by (auto simp add: lambda_ok_def)
  have "data s' sos = data (lambda_result False (last eos_vector) rho eint p sos s) sos"
    using nd by (simp add: s' lambda_result_def Let_def data_set_data)
  moreover have "data s' p = data s' sos"
    using assms(1) v by (rule visit_lambda_host)
  ultimately show ?thesis
    using k by simp
qed

section \<open>Monotone operations on doubles\<close>









section \<open>Worked examples\<close>

lemma main_lambda_ok: "lambda_ok main_memory (View 0) (View 1) (View 2) (View 3)"
  by (simp add: lambda_ok_def in_bounds_def extent_def main_memory_def)

lemma main_lambda_result:
  "data (lambda_result host (LinearGas (EOSLinearGas 3 (14 / 10) (1 / 1000000)))
      (View 0) (View 1) (View 2) (View 3) main_memory) (View 2) =
     replicate 10 (if host then 56 / 100 else 4 / 10) \<and>
   data (lambda_result host (LinearGas (EOSLinearGas 3 (14 / 10) (1 / 1000000)))
      (View 0) (View 1) (View 2) (View 3) main_memory) (View 3) = replicate 10 (56 / 100)"
proof -
  have a: "overwrite f {..<10} (replicate 10 (0::real)) = map f [0..<10]" for f
    using overwrite_all [of "replicate 10 (0::real)" 10 f] by simp
  have b: "map (\<lambda>j. c) [0..<10] = replicate 10 c" for c :: real
    by (simp add: map_replicate_const [of c "[0..<10]", simplified])
  have m: "data main_memory (View 0) = replicate 10 1" "data main_memory (View 1) = replicate 10 1"
    "data main_memory (View 2) = replicate 10 0" "data main_memory (View 3) = replicate 10 0"
    "extent main_memory (View 0) = 10"
    by (simp_all add: main_memory_def extent_def)
  have p: "map (new_p (LinearGas (EOSLinearGas 3 (14 / 10) (1 / 1000000))) main_memory
             (View 0) (View 1)) [0..<10] = replicate 10 (4 / 10)"
    unfolding b [symmetric]
    by (rule map_cong) (simp_all add: new_p_def main_memory_def lin_p_def Kokkos_max_def)
  have c: "map (new_sos (LinearGas (EOSLinearGas 3 (14 / 10) (1 / 1000000))) main_memory
             (View 0) (View 1)) [0..<10] = replicate 10 (56 / 100)"
    unfolding b [symmetric]
    by (rule map_cong) (simp_all add: new_sos_def new_p_def main_memory_def lin_p_def lin_sos_def Kokkos_max_def)
  show ?thesis
    unfolding lambda_result_def Let_def data_set_data m a p c by simp
qed

lemma test_in_bounds:
  "in_bounds test_memory (View 0) (View 1) (View 2) (View 3)"
  "in_bounds cold_memory (View 0) (View 1) (View 2) (View 3)"
  "in_bounds warm_memory (View 0) (View 1) (View 2) (View 3)"
  by (simp_all add: in_bounds_def extent_def test_memory_def cold_memory_def warm_memory_def)

lemma test_run:
  "StiffenedGas_PressureSoSImpl (EOSStiffenedGas 0 (14 / 10) (1 / 1000000) (1 / 10))
     (View 0) (View 1) (View 2) (View 3) test_memory
   = Some (test_memory (2 := [66 / 100], 3 := [1064 / 1000]))"
  by (simp add: StiffenedGas_PressureSoSImpl_def parallel_for_def StiffenedGas_body_def
      test_memory_def extent_def view_get_def Kokkos_max_def fun_upd_twist)

lemma test_lambda_ok: "lambda_ok test_memory (View 0) (View 1) (View 2) (View 3)"
  by (simp add: lambda_ok_def in_bounds_def extent_def test_memory_def)

lemma two_lambda_result:
  "data (lambda_result host (StiffenedGas (EOSStiffenedGas 1 3 (1 / 1000000) (1 / 10)))
      (View 0) (View 1) (View 2) (View 3) test_memory) (View 2) =
     [if host then 114 / 10 else 37 / 10] \<and>
   data (lambda_result host (StiffenedGas (EOSStiffenedGas 1 3 (1 / 1000000) (1 / 10)))
      (View 0) (View 1) (View 2) (View 3) test_memory) (View 3) = [114 / 10]"
  by (simp add: lambda_result_def Let_def set_data_def test_memory_def extent_def overwrite_def
      new_p_def new_sos_def stf_p_def stf_sos_def Kokkos_max_def)



text \<open>
  The theorems below are about views of four different allocations, as the arrays of
  \<^verbatim>\<open>main\<close> and of the test are. The kernels do not check this: called with \<open>rho\<close> also
  as the output \<open>p\<close>, the test's model overwrites \<open>rho\<close> and divides by the new value.
\<close>

lemma aliased_output_overwrites_input:
  "\<exists>s'. StiffenedGas_PressureSoSImpl (EOSStiffenedGas 0 (14 / 10) (1 / 1000000) (1 / 10))
          (View 0) (View 1) (View 0) (View 3) test_memory = Some s' \<and>
        data s' (View 0) = [66 / 100] \<and> data s' (View 3) = [266 / 165]"
  by (simp add: StiffenedGas_PressureSoSImpl_def parallel_for_def StiffenedGas_body_def
      test_memory_def extent_def view_get_def Kokkos_max_def)

section \<open>The pressure and the sound speed of each model\<close>

text \<open>
  C1. For views of four different allocations, with \<open>eint\<close>, \<open>p\<close> and \<open>sos\<close> at least as
  long as \<open>rho\<close>, and for every index \<open>i\<close> of \<open>rho\<close> with \<open>rho[i] > 0\<close> and every
  \<open>gamma > 1\<close>: \<^verbatim>\<open>EOSLinearGas::PressureSoSImpl\<close> returns, and in the memory it leaves
  \<open>p[i] = max((gamma - 1) * rho[i] * eint[i], pcutoff)\<close> and \<open>sos[i] = gamma * p[i] / rho[i]\<close>
  with the \<open>p[i]\<close> just stored. The scalar type is any linear order with the operators of
  the kernel: no law of arithmetic is used.
\<close>

theorem LinearGas_PressureSoS_values:
  fixes gamma pcutoff :: "'a::{zero,one,minus,plus,times,inverse,linorder}"
  assumes "distinct [rho, eint, p, sos]"
    and "extent s rho \<le> extent s eint" and "extent s rho \<le> extent s p"
    and "extent s rho \<le> extent s sos"
    and "i < extent s rho" and "0 < data s rho ! i" and "1 < gamma"
  shows "\<exists>s'. LinearGas_PressureSoSImpl (EOSLinearGas n gamma pcutoff) rho eint p sos s = Some s' \<and>
           data s' p ! i = max ((gamma - 1) * data s rho ! i * data s eint ! i) pcutoff \<and>
           data s' sos ! i = gamma * data s' p ! i / data s rho ! i"
proof -
  have "in_bounds s rho eint p sos"
    using assms(2-4) by (simp add: in_bounds_def)
  from PressureSoSImpl_p_nth [OF assms(1) this assms(5), of "LinearGas (EOSLinearGas n gamma pcutoff)"]
  show ?thesis
    by (auto simp add: new_p_def new_sos_def lin_p_def lin_sos_def Kokkos_max_eq_max)
qed

theorem LinearGas_PressureSoS_values_witness:
  "distinct [View 0, View 1, View 2, View 3] \<and>
   extent main_memory (View 0) \<le> extent main_memory (View 1) \<and>
   extent main_memory (View 0) \<le> extent main_memory (View 2) \<and>
   extent main_memory (View 0) \<le> extent main_memory (View 3) \<and>
   0 < extent main_memory (View 0) \<and> 0 < data main_memory (View 0) ! 0 \<and> (1::real) < 14 / 10 \<and>
   (\<exists>s'. LinearGas_PressureSoSImpl (EOSLinearGas 0 (14 / 10) (1 / 1000000))
          (View 0) (View 1) (View 2) (View 3) main_memory = Some s' \<and>
        data s' (View 2) ! 0 = 4 / 10 \<and> data s' (View 3) ! 0 = 56 / 100)"
proof -
  have h: "distinct [View 0, View 1, View 2, View 3]"
    "extent main_memory (View 0) \<le> extent main_memory (View 1)"
    "extent main_memory (View 0) \<le> extent main_memory (View 2)"
    "extent main_memory (View 0) \<le> extent main_memory (View 3)"
    "0 < extent main_memory (View 0)" "0 < data main_memory (View 0) ! 0" "(1::real) < 14 / 10"
    by (simp_all add: main_memory_def extent_def)
  from LinearGas_PressureSoS_values [OF h, of 0 "1 / 1000000"]
  obtain s' where
    "LinearGas_PressureSoSImpl (EOSLinearGas 0 (14 / 10) (1 / 1000000))
       (View 0) (View 1) (View 2) (View 3) main_memory = Some s'"
    "data s' (View 2) ! 0 =
       max ((14 / 10 - 1) * data main_memory (View 0) ! 0 * data main_memory (View 1) ! 0)
         (1 / 1000000)"
    "data s' (View 3) ! 0 = 14 / 10 * data s' (View 2) ! 0 / data main_memory (View 0) ! 0"
    by blast
  then have "\<exists>s'. LinearGas_PressureSoSImpl (EOSLinearGas 0 (14 / 10) (1 / 1000000))
          (View 0) (View 1) (View 2) (View 3) main_memory = Some s' \<and>
        data s' (View 2) ! 0 = 4 / 10 \<and> data s' (View 3) ! 0 = 56 / 100"
    by (intro exI [of _ s']) (simp add: main_memory_def)
  with h show ?thesis
    by blast
qed

text \<open>
  C2. Under the same conditions on the views, for every index \<open>i\<close> of \<open>rho\<close> with
  \<open>rho[i] > 0\<close>: \<^verbatim>\<open>EOSStiffenedGas::PressureSoSImpl\<close> returns and leaves
  \<open>p[i] = max((gamma - 1) * rho[i] * eint[i] - gamma * pinf, pcutoff)\<close> and
  \<open>sos[i] = gamma * (p[i] + pinf) / rho[i]\<close>, with the \<open>p[i]\<close> just stored.
\<close>

theorem StiffenedGas_PressureSoS_values:
  fixes gamma pcutoff pinf :: "'a::{zero,one,minus,plus,times,inverse,linorder}"
  assumes "distinct [rho, eint, p, sos]"
    and "extent s rho \<le> extent s eint" and "extent s rho \<le> extent s p"
    and "extent s rho \<le> extent s sos"
    and "i < extent s rho" and "0 < data s rho ! i"
  shows "\<exists>s'. StiffenedGas_PressureSoSImpl (EOSStiffenedGas n gamma pcutoff pinf) rho eint p sos s
             = Some s' \<and>
           data s' p ! i =
             max ((gamma - 1) * data s rho ! i * data s eint ! i - gamma * pinf) pcutoff \<and>
           data s' sos ! i = gamma * (data s' p ! i + pinf) / data s rho ! i"
proof -
  have "in_bounds s rho eint p sos"
    using assms(2-4) by (simp add: in_bounds_def)
  from PressureSoSImpl_p_nth [OF assms(1) this assms(5),
      of "StiffenedGas (EOSStiffenedGas n gamma pcutoff pinf)"]
  show ?thesis
    by (auto simp add: new_p_def new_sos_def stf_p_def stf_sos_def Kokkos_max_eq_max)
qed

theorem StiffenedGas_PressureSoS_values_witness:
  "distinct [View 0, View 1, View 2, View 3] \<and>
   (0::real) < data test_memory (View 0) ! 0 \<and>
   (\<exists>s'. StiffenedGas_PressureSoSImpl (EOSStiffenedGas 0 (14 / 10) (1 / 1000000) (1 / 10))
          (View 0) (View 1) (View 2) (View 3) test_memory = Some s' \<and>
        data s' (View 2) ! 0 = 66 / 100 \<and> data s' (View 3) ! 0 = 1064 / 1000)"
proof -
  have "\<exists>s'. StiffenedGas_PressureSoSImpl (EOSStiffenedGas 0 (14 / 10) (1 / 1000000) (1 / 10))
          (View 0) (View 1) (View 2) (View 3) test_memory = Some s' \<and>
        data s' (View 2) ! 0 =
          max ((14 / 10 - 1) * data test_memory (View 0) ! 0 * data test_memory (View 1) ! 0
                - 14 / 10 * (1 / 10)) (1 / 1000000) \<and>
        data s' (View 3) ! 0 =
          14 / 10 * (data s' (View 2) ! 0 + 1 / 10) / data test_memory (View 0) ! 0"
    by (rule StiffenedGas_PressureSoS_values) (simp_all add: test_memory_def extent_def)
  then obtain s' where
    "StiffenedGas_PressureSoSImpl (EOSStiffenedGas 0 (14 / 10) (1 / 1000000) (1 / 10))
       (View 0) (View 1) (View 2) (View 3) test_memory = Some s'"
    "data s' (View 2) ! 0 =
          max ((14 / 10 - 1) * data test_memory (View 0) ! 0 * data test_memory (View 1) ! 0
                - 14 / 10 * (1 / 10)) (1 / 1000000)"
    "data s' (View 3) ! 0 =
          14 / 10 * (data s' (View 2) ! 0 + 1 / 10) / data test_memory (View 0) ! 0"
    by blast
  then have "\<exists>s'. StiffenedGas_PressureSoSImpl (EOSStiffenedGas 0 (14 / 10) (1 / 1000000) (1 / 10))
          (View 0) (View 1) (View 2) (View 3) test_memory = Some s' \<and>
        data s' (View 2) ! 0 = 66 / 100 \<and> data s' (View 3) ! 0 = 1064 / 1000"
    by (intro exI [of _ s']) (simp add: test_memory_def)
  then show ?thesis
    by (simp add: test_memory_def)
qed

section \<open>The pressure floor and monotonicity\<close>






section \<open>Relations between the models\<close>

text \<open>
  C6. In exact arithmetic, a stiffened gas with \<open>pinf = 0\<close> runs exactly as the linear
  gas with the same \<open>gamma\<close> and \<open>pcutoff\<close>: on every memory and for every four views the
  two runs end with the same memory or both have no result; in particular they leave the
  same array \<open>p\<close>.
\<close>

theorem StiffenedGas_pinf_0:
  fixes gamma :: "'a::linordered_field"
  shows "StiffenedGas_PressureSoSImpl (EOSStiffenedGas n gamma pcutoff 0) rho eint p sos s =
           LinearGas_PressureSoSImpl (EOSLinearGas m gamma pcutoff) rho eint p sos s \<and>
         map_option (\<lambda>s'. data s' p)
           (StiffenedGas_PressureSoSImpl (EOSStiffenedGas n gamma pcutoff 0) rho eint p sos s) =
         map_option (\<lambda>s'. data s' p)
           (LinearGas_PressureSoSImpl (EOSLinearGas m gamma pcutoff) rho eint p sos s)"
  by (simp add: StiffenedGas_PressureSoSImpl_def LinearGas_PressureSoSImpl_def
      StiffenedGas_body_pinf_0 [of n gamma pcutoff rho eint p sos m])

text \<open>
  C7. The test \<^verbatim>\<open>EOSStiffenedGasTest.PressureSoSImpl\<close> in exact arithmetic:
  \<open>rho = 1\<close>, \<open>eint = 2\<close>, \<open>gamma = 1.4\<close>, \<open>pcutoff = 1e-6\<close>, \<open>pinf = 0.1\<close> give
  \<open>p = 0.66\<close> and \<open>sos = 1.064\<close>, so both are within \<open>1e-8\<close> of these values.
\<close>

theorem StiffenedGas_test_values:
  "\<exists>s'. StiffenedGas_PressureSoSImpl (EOSStiffenedGas 0 (14 / 10) (1 / 1000000) (1 / 10))
          (View 0) (View 1) (View 2) (View 3) test_memory = Some s' \<and>
        data s' (View 2) = [66 / 100] \<and> data s' (View 3) = [1064 / 1000] \<and>
        \<bar>data s' (View 2) ! 0 - 66 / 100\<bar> \<le> 1 / 100000000 \<and>
        \<bar>data s' (View 3) ! 0 - 1064 / 1000\<bar> \<le> 1 / 100000000"
  using test_run by simp

section \<open>What a run reads and writes\<close>

text \<open>
  C8. For either model, on views of four different allocations whose extents fit, the run
  returns and
  \<^item> leaves \<open>rho\<close>, \<open>eint\<close> and every view other than \<open>p\<close> and \<open>sos\<close> as they were, and
    every extent as it was;
  \<^item> leaves \<open>p\<close> and \<open>sos\<close> as they were from index \<open>extent rho\<close> on;
  \<^item> stores in \<open>p\<close> and \<open>sos\<close> values that depend on \<open>rho\<close>, \<open>eint\<close> and the model only:
    a run on any other memory with the same \<open>rho\<close> and \<open>eint\<close> (and output arrays of the
    same extents) leaves the same first \<open>extent rho\<close> entries of \<open>p\<close> and \<open>sos\<close>;
  \<^item> at each index \<open>i\<close>, the body of either kernel changes \<open>p[i]\<close> and \<open>sos[i]\<close> and
    nothing else.
  The model is an argument of the run and not part of the memory: the member function is
  \<^verbatim>\<open>const\<close>.
\<close>

theorem PressureSoSImpl_frame:
  assumes "distinct [rho, eint, p, sos]" and "in_bounds s rho eint p sos"
  shows "\<exists>s'. PressureSoSImpl obj rho eint p sos s = Some s' \<and>
           data s' rho = data s rho \<and> data s' eint = data s eint \<and>
           (\<forall>v. v \<noteq> p \<and> v \<noteq> sos \<longrightarrow> data s' v = data s v) \<and>
           (\<forall>v. extent s' v = extent s v) \<and>
           drop (extent s rho) (data s' p) = drop (extent s rho) (data s p) \<and>
           drop (extent s rho) (data s' sos) = drop (extent s rho) (data s sos) \<and>
           (\<forall>t. data t rho = data s rho \<and> data t eint = data s eint \<and>
                extent t p = extent s p \<and> extent t sos = extent s sos \<longrightarrow>
                (\<exists>t'. PressureSoSImpl obj rho eint p sos t = Some t' \<and>
                      take (extent s rho) (data t' p) = take (extent s rho) (data s' p) \<and>
                      take (extent s rho) (data t' sos) = take (extent s rho) (data s' sos))) \<and>
           (\<forall>i<extent s rho. \<forall>lin stf. \<exists>x y x' y'.
              LinearGas_body lin rho eint p sos i s =
                Some (set_data sos ((data s sos)[i := y]) (set_data p ((data s p)[i := x]) s)) \<and>
              StiffenedGas_body stf rho eint p sos i s =
                Some (set_data sos ((data s sos)[i := y']) (set_data p ((data s p)[i := x']) s)))"
proof -
  let ?N = "extent s rho"
  let ?s' = "set_data sos (overwrite (new_sos obj s rho eint) {..<?N} (data s sos))
              (set_data p (overwrite (new_p obj s rho eint) {..<?N} (data s p)) s)"
  have d: "rho \<noteq> p" "rho \<noteq> sos" "eint \<noteq> p" "eint \<noteq> sos" "p \<noteq> sos" "sos \<noteq> p"
    using assms(1) by auto
  have run: "PressureSoSImpl obj rho eint p sos s = Some ?s'"
    using assms(2) by (simp add: PressureSoSImpl_eq [OF assms(1)])
  have inputs: "data ?s' rho = data s rho" "data ?s' eint = data s eint"
    using d by (simp_all add: data_set_data)
  have others: "\<forall>v. v \<noteq> p \<and> v \<noteq> sos \<longrightarrow> data ?s' v = data s v"
    by (simp add: data_set_data)
  have ext: "\<forall>v. extent ?s' v = extent s v"
    by (simp add: extent_set_data_same_length length_data)
  have outs: "data ?s' p = overwrite (new_p obj s rho eint) {..<?N} (data s p)"
    "data ?s' sos = overwrite (new_sos obj s rho eint) {..<?N} (data s sos)"
  proof -
    show "data ?s' p = overwrite (new_p obj s rho eint) {..<?N} (data s p)"
      by (simp only: data_set_data_other [OF d(5)] data_set_data_overwrite)
    have "data (set_data p (overwrite (new_p obj s rho eint) {..<?N} (data s p)) s) sos = data s sos"
      by (rule data_set_data_other [OF d(6)])
    then show "data ?s' sos = overwrite (new_sos obj s rho eint) {..<?N} (data s sos)"
      using data_set_data_overwrite
        [of sos "new_sos obj s rho eint" "{..<?N}"
          "set_data p (overwrite (new_p obj s rho eint) {..<?N} (data s p)) s"]
      by simp
  qed
  have rest: "drop ?N (data ?s' p) = drop ?N (data s p)"
    "drop ?N (data ?s' sos) = drop ?N (data s sos)"
    unfolding outs by (rule overwrite_drop)+
  have det: "\<exists>t'. PressureSoSImpl obj rho eint p sos t = Some t' \<and>
      take ?N (data t' p) = take ?N (data ?s' p) \<and> take ?N (data t' sos) = take ?N (data ?s' sos)"
    if t: "data t rho = data s rho" "data t eint = data s eint"
      "extent t p = extent s p" "extent t sos = extent s sos" for t
  proof -
    let ?t' = "set_data sos (overwrite (new_sos obj t rho eint) {..<extent t rho} (data t sos))
              (set_data p (overwrite (new_p obj t rho eint) {..<extent t rho} (data t p)) t)"
    have Nt: "extent t rho = ?N" "extent t eint = extent s eint"
      using t(1,2) by (simp_all add: extent_def)
    then have "in_bounds t rho eint p sos"
      using assms(2) t(3,4) by (simp add: in_bounds_def)
    then have runt: "PressureSoSImpl obj rho eint p sos t = Some ?t'"
      by (simp add: PressureSoSImpl_eq [OF assms(1)])
    have f: "new_p obj t rho eint = new_p obj s rho eint"
      "new_sos obj t rho eint = new_sos obj s rho eint"
      by (simp_all add: new_p_def [abs_def] new_sos_def [abs_def] t)
    have outt: "data ?t' p = overwrite (new_p obj s rho eint) {..<?N} (data t p)"
      "data ?t' sos = overwrite (new_sos obj s rho eint) {..<?N} (data t sos)"
      unfolding f Nt
    proof -
      show "data (set_data sos (overwrite (new_sos obj s rho eint) {..<?N} (data t sos))
          (set_data p (overwrite (new_p obj s rho eint) {..<?N} (data t p)) t)) p =
          overwrite (new_p obj s rho eint) {..<?N} (data t p)"
        by (simp only: data_set_data_other [OF d(5)] data_set_data_overwrite)
      have "data (set_data p (overwrite (new_p obj s rho eint) {..<?N} (data t p)) t) sos
          = data t sos"
        by (rule data_set_data_other [OF d(6)])
      then show "data (set_data sos (overwrite (new_sos obj s rho eint) {..<?N} (data t sos))
          (set_data p (overwrite (new_p obj s rho eint) {..<?N} (data t p)) t)) sos =
          overwrite (new_sos obj s rho eint) {..<?N} (data t sos)"
        using data_set_data_overwrite
          [of sos "new_sos obj s rho eint" "{..<?N}"
            "set_data p (overwrite (new_p obj s rho eint) {..<?N} (data t p)) t"]
        by simp
    qed
    have "take ?N (data ?t' p) = take ?N (data ?s' p)"
      "take ?N (data ?t' sos) = take ?N (data ?s' sos)"
      unfolding outs outt using t(3,4) by (simp_all add: overwrite_take length_data)
    with runt show ?thesis
      by blast
  qed
  have body: "\<forall>i<?N. \<forall>lin stf. \<exists>x y x' y'.
      LinearGas_body lin rho eint p sos i s =
        Some (set_data sos ((data s sos)[i := y]) (set_data p ((data s p)[i := x]) s)) \<and>
      StiffenedGas_body stf rho eint p sos i s =
        Some (set_data sos ((data s sos)[i := y']) (set_data p ((data s p)[i := x']) s))"
    unfolding LinearGas_body_kernel StiffenedGas_body_kernel
    using body_writes [OF assms] by blast
  from det have det':
    "\<forall>t. data t rho = data s rho \<and> data t eint = data s eint \<and>
         extent t p = extent s p \<and> extent t sos = extent s sos \<longrightarrow>
      (\<exists>t'. PressureSoSImpl obj rho eint p sos t = Some t' \<and>
        take ?N (data t' p) = take ?N (data ?s' p) \<and>
        take ?N (data t' sos) = take ?N (data ?s' sos))"
    by blast
  show ?thesis
    by (rule exI [of _ ?s']) (intro conjI run inputs others ext rest det' body)
qed

theorem PressureSoSImpl_frame_witness:
  "distinct [View 0, View 1, View 2, View 3] \<and>
   in_bounds test_memory (View 0) (View 1) (View 2) (View 3) \<and>
   (\<exists>s'. PressureSoSImpl (StiffenedGas (EOSStiffenedGas 0 (14 / 10) (1 / 1000000) (1 / 10)))
            (View 0) (View 1) (View 2) (View 3) test_memory = Some s' \<and>
          data s' (View 0) = [1] \<and> data s' (View 1) = [2] \<and> data s' (View 4) = [] \<and>
          extent s' (View 2) = 1 \<and> extent s' (View 3) = 1)"
proof -
  have d: "distinct [View 0, View 1, View 2, View 3]"
    by simp
  from PressureSoSImpl_frame [OF d test_in_bounds(1),
      of "StiffenedGas (EOSStiffenedGas 0 (14 / 10) (1 / 1000000) (1 / 10))"]
  obtain s' where
    "PressureSoSImpl (StiffenedGas (EOSStiffenedGas 0 (14 / 10) (1 / 1000000) (1 / 10)))
       (View 0) (View 1) (View 2) (View 3) test_memory = Some s'"
    "data s' (View 0) = data test_memory (View 0)" "data s' (View 1) = data test_memory (View 1)"
    and fr: "\<forall>v. v \<noteq> View 2 \<and> v \<noteq> View 3 \<longrightarrow> data s' v = data test_memory v"
    and ex: "\<forall>v. extent s' v = extent test_memory v"
    by blast
  moreover have "data s' (View 4) = data test_memory (View 4)"
    using fr [rule_format, of "View 4"] by simp
  moreover have "extent s' (View 2) = extent test_memory (View 2)"
    "extent s' (View 3) = extent test_memory (View 3)"
    using ex by blast+
  ultimately have
    "PressureSoSImpl (StiffenedGas (EOSStiffenedGas 0 (14 / 10) (1 / 1000000) (1 / 10)))
       (View 0) (View 1) (View 2) (View 3) test_memory = Some s' \<and>
     data s' (View 0) = [1] \<and> data s' (View 1) = [2] \<and> data s' (View 4) = [] \<and>
     extent s' (View 2) = 1 \<and> extent s' (View 3) = 1"
    by (simp add: test_memory_def extent_def)
  then show ?thesis
    using d test_in_bounds(1) by blast
qed

text \<open>
  C9. The identifier of a model is not read: two models of the same class with the same
  \<open>gamma\<close>, \<open>pcutoff\<close> (and \<open>pinf\<close>) and any two identifiers run alike on every memory and
  for every four views.
\<close>

theorem id_not_read:
  "LinearGas_PressureSoSImpl (EOSLinearGas id1 gamma pcutoff) rho eint p sos s =
     LinearGas_PressureSoSImpl (EOSLinearGas id2 gamma pcutoff) rho eint p sos s \<and>
   StiffenedGas_PressureSoSImpl (EOSStiffenedGas id1 gamma pcutoff pinf) rho eint p sos s =
     StiffenedGas_PressureSoSImpl (EOSStiffenedGas id2 gamma pcutoff pinf) rho eint p sos s"
  by (simp add: LinearGas_PressureSoSImpl_def StiffenedGas_PressureSoSImpl_def
      LinearGas_body_def [abs_def] StiffenedGas_body_def [abs_def])

section \<open>What the dispatch loop leaves\<close>

text \<open>
  C3. After the dispatch loop over two or more models, \<open>p\<close> and \<open>sos\<close> should hold what
  the last model alone produces. On an accelerator build they do (lemma
  \<open>dispatch_loop_accelerator\<close>). On a host build \<open>sos\<close> does and \<open>p\<close> does not: \<open>host_sos\<close>
  is created as a mirror of \<open>p\<close> where \<open>sos\<close> is meant, on the host that mirror is \<open>p\<close>
  itself, and \<^verbatim>\<open>deep_copy(host_sos, sos)\<close> overwrites the pressure with the sound speed
  (lemma \<open>dispatch_loop_host\<close>). The theorem runs the loop on a host build
  \<^item> on the models and arrays of \<^verbatim>\<open>main\<close>: \<open>p\<close> ends as \<open>0.56\<close>, the sound speed, where
    the last model's kernel gives \<open>0.4\<close>;
  \<^item> on two models that differ, over the test's arrays: \<open>p\<close> ends as \<open>11.4\<close>, the sound
    speed of the last model, where its kernel gives \<open>3.7\<close>.
\<close>

theorem dispatch_host_build_p_holds_sos:
  "(\<exists>s' k. dispatch_loop True main_eos_vector (View 0) (View 1) (View 2) (View 3) main_memory
              = Some s' \<and>
            PressureSoSImpl (last main_eos_vector) (View 0) (View 1) (View 2) (View 3) main_memory
              = Some k \<and>
            data k (View 2) = replicate 10 (4 / 10) \<and> data k (View 3) = replicate 10 (56 / 100) \<and>
            data s' (View 2) = replicate 10 (56 / 100) \<and>
            data s' (View 3) = replicate 10 (56 / 100) \<and>
            data s' (View 2) \<noteq> data k (View 2)) \<and>
   (\<exists>s' k. dispatch_loop True two_eos_vector (View 0) (View 1) (View 2) (View 3) test_memory
              = Some s' \<and>
            PressureSoSImpl (last two_eos_vector) (View 0) (View 1) (View 2) (View 3) test_memory
              = Some k \<and>
            data k (View 2) = [37 / 10] \<and> data k (View 3) = [114 / 10] \<and>
            data s' (View 2) = [114 / 10] \<and> data s' (View 3) = [114 / 10] \<and>
            data s' (View 2) \<noteq> data k (View 2))"
proof -
  have d: "distinct [View 0, View 1, View 2, View 3]"
    by simp
  have run: "dispatch_loop host eos_vector (View 0) (View 1) (View 2) (View 3) s =
      Some (lambda_result host (last eos_vector) (View 0) (View 1) (View 2) (View 3) s)"
    if "eos_vector \<noteq> []" "lambda_ok s (View 0) (View 1) (View 2) (View 3)"
    for host and eos_vector :: "real EOSVariant list" and s
  proof -
    have "dispatch_loop host eos_vector (View 0) (View 1) (View 2) (View 3) s =
        dispatch_loop host [last eos_vector] (View 0) (View 1) (View 2) (View 3) s"
      by (rule dispatch_loop_last [OF d that(1)])
    also have "\<dots> =
        Some (lambda_result host (last eos_vector) (View 0) (View 1) (View 2) (View 3) s)"
      by (simp only: dispatch_loop.simps visit_lambda_eq [OF d] that(2) if_True option.case)
    finally show ?thesis .
  qed
  have kernel: "PressureSoSImpl obj (View 0) (View 1) (View 2) (View 3) s =
      Some (lambda_result False obj (View 0) (View 1) (View 2) (View 3) s)"
    if "lambda_ok s (View 0) (View 1) (View 2) (View 3)" for obj :: "real EOSVariant" and s
    using d that by (rule PressureSoSImpl_lambda_result)
  have m: "main_eos_vector \<noteq> []"
    "last main_eos_vector = LinearGas (EOSLinearGas 3 (14 / 10) (1 / 1000000))"
    by (simp_all add: main_eos_vector_def)
  have t: "two_eos_vector \<noteq> []"
    "last two_eos_vector = StiffenedGas (EOSStiffenedGas 1 3 (1 / 1000000) (1 / 10))"
    by (simp_all add: two_eos_vector_def)
  have ne: "replicate 10 (56 / 100 :: real) \<noteq> replicate 10 (4 / 10)"
    "[114 / 10 :: real] \<noteq> [37 / 10]"
    by simp_all
  have 1: "\<exists>s' k. dispatch_loop True main_eos_vector (View 0) (View 1) (View 2) (View 3) main_memory
              = Some s' \<and>
            PressureSoSImpl (last main_eos_vector) (View 0) (View 1) (View 2) (View 3) main_memory
              = Some k \<and>
            data k (View 2) = replicate 10 (4 / 10) \<and> data k (View 3) = replicate 10 (56 / 100) \<and>
            data s' (View 2) = replicate 10 (56 / 100) \<and>
            data s' (View 3) = replicate 10 (56 / 100) \<and>
            data s' (View 2) \<noteq> data k (View 2)"
    unfolding run [OF m(1) main_lambda_ok] kernel [OF main_lambda_ok] m(2)
    using main_lambda_result [of True] main_lambda_result [of False] ne(1) by simp
  have 2: "\<exists>s' k. dispatch_loop True two_eos_vector (View 0) (View 1) (View 2) (View 3) test_memory
              = Some s' \<and>
            PressureSoSImpl (last two_eos_vector) (View 0) (View 1) (View 2) (View 3) test_memory
              = Some k \<and>
            data k (View 2) = [37 / 10] \<and> data k (View 3) = [114 / 10] \<and>
            data s' (View 2) = [114 / 10] \<and> data s' (View 3) = [114 / 10] \<and>
            data s' (View 2) \<noteq> data k (View 2)"
    unfolding run [OF t(1) test_lambda_ok] kernel [OF test_lambda_ok] t(2)
    using two_lambda_result [of True] two_lambda_result [of False] ne(2) by simp
  from 1 2 show ?thesis
    by (rule conjI)
qed

section \<open>The entry point of the base class\<close>

text \<open>
  C10. \<^verbatim>\<open>EOSCRTP::PressureSoS()\<close> runs the kernel of the derived class on four
  default-constructed views: the extent is 0, so the loop runs no iteration whatever its
  body, and the memory it returns is the memory it was given.
\<close>

theorem PressureSoS_default_views:
  "PressureSoS LinearGas_PressureSoSImpl lin s = Some s \<and>
   PressureSoS StiffenedGas_PressureSoSImpl stf s = Some s \<and>
   extent s View_default = 0 \<and>
   (\<forall>body. parallel_for (extent s View_default) body s = Some s)"
  by (simp add: PressureSoS_def LinearGas_PressureSoSImpl_def StiffenedGas_PressureSoSImpl_def
      parallel_for_def extent_def)

end
